theory Spec2Isabelle
  imports Complex_Main "HOL-Library.Word"
begin

section \<open>Strings and DOM elements\<close>

text \<open>
  A JavaScript string is a sequence of 16-bit code units; \<open>length\<close> of the list is the
  \<^verbatim>\<open>.length\<close> of the string. Literals of the source are written as HOL strings and
  converted by \<open>lit\<close>.
\<close>

type_synonym jsstring = "16 word list"

definition lit :: "string \<Rightarrow> jsstring" where
  "lit s = map (\<lambda>c. of_nat (of_char c)) s"

text \<open>
  The characters matched by \<^verbatim>\<open>\s\<close> in a regular expression and removed by
  \<^verbatim>\<open>String.prototype.trim\<close>: WhiteSpace and LineTerminator of ECMAScript.
\<close>

definition isWhiteSpace :: "16 word \<Rightarrow> bool" where
  "isWhiteSpace c =
     (c = 0x09 \<or> c = 0x0A \<or> c = 0x0B \<or> c = 0x0C \<or> c = 0x0D \<or> c = 0x20 \<or> c = 0xA0
      \<or> c = 0x1680 \<or> (0x2000 \<le> c \<and> c \<le> 0x200A) \<or> c = 0x2028 \<or> c = 0x2029
      \<or> c = 0x202F \<or> c = 0x205F \<or> c = 0x3000 \<or> c = 0xFEFF)"

definition trim :: "jsstring \<Rightarrow> jsstring" where
  "trim s = rev (dropWhile isWhiteSpace (rev (dropWhile isWhiteSpace s)))"

text \<open>
  \<^verbatim>\<open>s.substring(a, b)\<close>: both indices are clamped to \<open>[0, length s]\<close> and swapped
  when the first is larger. \<^verbatim>\<open>s.substring(a)\<close> is \<open>substring a (length s) s\<close>.
\<close>

definition clampIndex :: "jsstring \<Rightarrow> int \<Rightarrow> nat" where
  "clampIndex s i = (if i < 0 then 0 else min (nat i) (length s))"

definition substring :: "int \<Rightarrow> int \<Rightarrow> jsstring \<Rightarrow> jsstring" where
  "substring a b s =
     (let x = clampIndex s a; y = clampIndex s b;
          lo = min x y; hi = max x y
      in take (hi - lo) (drop lo s))"

text \<open>\<^verbatim>\<open>s.replace(/\n/g, '<br>')\<close>\<close>

fun replaceNewlines :: "jsstring \<Rightarrow> jsstring" where
  "replaceNewlines [] = []"
| "replaceNewlines (c # cs) =
     (if c = 0x0A then lit ''<br>'' @ replaceNewlines cs else c # replaceNewlines cs)"

text \<open>
  \<^verbatim>\<open>s.replace(/@\S*/gi, (match) => `<span class="context">${match}</span>`)\<close>:
  every \<^verbatim>\<open>@\<close> together with the longest run of non-space characters after it is
  wrapped in a span. The flag \<open>inMatch\<close> says that the scan is inside such a run; the
  run ends at a space character, which is not \<^verbatim>\<open>@\<close> and is copied.
\<close>

fun wrapContext :: "bool \<Rightarrow> jsstring \<Rightarrow> jsstring" where
  "wrapContext inMatch [] = (if inMatch then lit ''</span>'' else [])"
| "wrapContext inMatch (c # cs) =
     (if inMatch then
        (if isWhiteSpace c then lit ''</span>'' @ c # wrapContext False cs
         else c # wrapContext True cs)
      else if c = 0x40 then lit ''<span class=\"context\">'' @ c # wrapContext True cs
      else c # wrapContext False cs)"

text \<open>
  A JavaScript number: a finite value (every finite double is a rational), an infinity or
  \<^verbatim>\<open>NaN\<close>. \<open>toUint32\<close> is the conversion of a number to the \<^verbatim>\<open>unsigned long\<close> a DOM
  method takes: \<^verbatim>\<open>NaN\<close> and the infinities give 0, any other number is truncated towards
  zero and taken modulo \<open>2 ^ 32\<close>.
\<close>

datatype jsnumber = NaN | PosInfinity | NegInfinity | Finite rat

fun toUint32 :: "jsnumber \<Rightarrow> nat" where
  "toUint32 (Finite q) = nat ((if q < 0 then - \<lfloor>- q\<rfloor> else \<lfloor>q\<rfloor>) mod 4294967296)"
| "toUint32 NaN = 0"
| "toUint32 PosInfinity = 0"
| "toUint32 NegInfinity = 0"

text \<open>
  Modelled from the spec: the module \<^verbatim>\<open>helper/dom\<close> (\<^verbatim>\<open>DomBuilder\<close>,
  \<^verbatim>\<open>ExtendedHTMLElement\<close>) is not among the sources. An element is the node of the DOM
  subtree a widget builds, with "property/attribute getters and setters callers use to
  read/write its displayed value". An \<^verbatim>\<open>ExtendedHTMLElement\<close> is the browser's element
  with \<^verbatim>\<open>addClass\<close>, \<^verbatim>\<open>removeClass\<close> and \<^verbatim>\<open>update\<close> added, so its properties and
  methods are those of the HTML standard: the attributes are a map from names to values,
  the class list has no duplicates, and only an element that is connected to the document
  and not disabled can take the focus.
\<close>

record element =
  tagName :: string
  classNames :: "string list"
  attributes :: "string \<rightharpoonup> jsstring"
  innerHTML :: jsstring
  hasFocus :: bool
  isConnected :: bool

definition setAttribute :: "string \<Rightarrow> jsstring \<Rightarrow> 'a element_scheme \<Rightarrow> 'a element_scheme" where
  "setAttribute k v e = e\<lparr>attributes := (attributes e)(k \<mapsto> v)\<rparr>"

definition removeAttribute :: "string \<Rightarrow> 'a element_scheme \<Rightarrow> 'a element_scheme" where
  "removeAttribute k e = e\<lparr>attributes := (attributes e)(k := None)\<rparr>"

definition addClass :: "string \<Rightarrow> 'a element_scheme \<Rightarrow> 'a element_scheme" where
  "addClass c e = (if c \<in> set (classNames e) then e else e\<lparr>classNames := classNames e @ [c]\<rparr>)"

definition removeClass :: "string \<Rightarrow> 'a element_scheme \<Rightarrow> 'a element_scheme" where
  "removeClass c e = e\<lparr>classNames := removeAll c (classNames e)\<rparr>"

definition focusable :: "'a element_scheme \<Rightarrow> bool" where
  "focusable e = (isConnected e \<and> attributes e ''disabled'' = None)"

text \<open>
  A \<^verbatim>\<open>textarea\<close> element. Its \<^verbatim>\<open>value\<close> property reads the raw value with newlines
  normalised: every CR LF pair and then every remaining CR becomes LF. Assigning to
  \<^verbatim>\<open>value\<close> stores the string given as the raw value and, when the value read changes
  by that, moves the selection to the end of the text. \<^verbatim>\<open>setSelectionRange\<close> takes two
  \<^verbatim>\<open>unsigned long\<close> arguments; an offset beyond the end of the text points at the end,
  and a start beyond the end offset is placed at the end offset.
\<close>

record textarea = element +
  rawValue :: jsstring
  selectionStart :: "nat option"
  selectionEnd :: "nat option"

fun normalizeNewlines :: "jsstring \<Rightarrow> jsstring" where
  "normalizeNewlines [] = []"
| "normalizeNewlines [c] = (if c = 0x0D then [0x0A] else [c])"
| "normalizeNewlines (c # d # ds) =
     (if c = 0x0D \<and> d = 0x0A then 0x0A # normalizeNewlines ds
      else if c = 0x0D then 0x0A # normalizeNewlines (d # ds)
      else c # normalizeNewlines (d # ds))"

definition textarea_value :: "textarea \<Rightarrow> jsstring" where
  "textarea_value t = normalizeNewlines (rawValue t)"

definition set_textarea_value :: "jsstring \<Rightarrow> textarea \<Rightarrow> textarea" where
  "set_textarea_value v t =
     (let oldValue = textarea_value t;
          t1 = t\<lparr>rawValue := v\<rparr>;
          n = length (textarea_value t1)
      in if textarea_value t1 \<noteq> oldValue
         then t1\<lparr>selectionStart := Some n, selectionEnd := Some n\<rparr>
         else t1)"

definition setSelectionRange :: "jsnumber \<Rightarrow> jsnumber \<Rightarrow> textarea \<Rightarrow> textarea" where
  "setSelectionRange a b t =
     (let n = length (textarea_value t);
          endOffset = min (toUint32 b) n;
          startOffset = min (min (toUint32 a) n) endOffset
      in t\<lparr>selectionStart := Some startOffset, selectionEnd := Some endOffset\<rparr>)"

text \<open>
  A \<^verbatim>\<open>select\<close> element with the values of its \<^verbatim>\<open>option\<close> children, in tree order, and
  the index of the selected one (\<open>None\<close> when none is selected). Its \<^verbatim>\<open>value\<close> property
  reads the value of the selected option, or the empty string when there is none;
  assigning to it selects the first option that has the value given, or none when no option
  has it.
\<close>

record select_element = element +
  optionValues :: "jsstring list"
  selectedIndex :: "nat option"

fun firstIndex :: "jsstring \<Rightarrow> jsstring list \<Rightarrow> nat option" where
  "firstIndex v [] = None"
| "firstIndex v (x # xs) = (if x = v then Some 0 else map_option Suc (firstIndex v xs))"

definition select_value :: "select_element \<Rightarrow> jsstring" where
  "select_value e =
     (case selectedIndex e of
        None \<Rightarrow> []
      | Some i \<Rightarrow> if i < length (optionValues e) then optionValues e ! i else [])"

definition set_select_value :: "jsstring \<Rightarrow> select_element \<Rightarrow> select_element" where
  "set_select_value v e = e\<lparr>selectedIndex := firstIndex v (optionValues e)\<rparr>"

text \<open>\<^verbatim>\<open>DomBuilder.getInstance().build\<close>: a new element, not yet in the document.\<close>

definition build :: "string \<Rightarrow> string list \<Rightarrow> (string \<rightharpoonup> jsstring) \<Rightarrow> element" where
  "build type classes attrs =
     \<lparr>tagName = type, classNames = remdups classes, attributes = attrs, innerHTML = [],
      hasFocus = False, isConnected = False\<rparr>"

section \<open>The prompt text input\<close>

text \<open>
  \<^verbatim>\<open>Config.getInstance().config\<close>, reduced to the two entries the widgets read. A feedback
  option is a \<^verbatim>\<open>SelectOption\<close>.
\<close>

record SelectOption =
  opt_value :: jsstring
  opt_label :: jsstring

record Config =
  autoFocus :: bool
  feedbackOptions :: "SelectOption list"

record KeyboardEvent =
  key :: jsstring
  code :: jsstring

text \<open>
  A callback prop is a function into a type \<open>'r\<close> of observations; what a handler calls is
  the list of observations it returns. An optional prop is an \<open>option\<close>, \<open>None\<close> for
  \<^verbatim>\<open>undefined\<close>.
\<close>

record 'r PromptTextInputProps =
  tabId :: jsstring
  initMaxLength :: int
  onKeydown :: "KeyboardEvent \<Rightarrow> 'r"
  onInput :: "(KeyboardEvent \<Rightarrow> 'r) option"

record 'r PromptTextInput =
  render :: element
  promptTextInputMaxLength :: int
  props :: "'r PromptTextInputProps"
  promptTextInputSizer :: element
  promptTextInput :: textarea
  keydownSupport :: bool

text \<open>The placeholder argument; its index is a whole number.\<close>

record PlaceHolder =
  ph_index :: "int option"
  ph_text :: "jsstring option"

text \<open>
  The textarea's \<^verbatim>\<open>focus\<close> event handler and \<^verbatim>\<open>blur\<close> event handler, and the
  call \<^verbatim>\<open>this.promptTextInput.focus()\<close>: when the textarea can take the focus and does
  not have it yet, it gets the focus and the \<^verbatim>\<open>focus\<close> event handler runs; otherwise
  nothing happens.
\<close>

definition focus_event :: "'r PromptTextInput \<Rightarrow> 'r PromptTextInput" where
  "focus_event s = s\<lparr>render := addClass ''input-has-focus'' (render s)\<rparr>"

definition blur_event :: "'r PromptTextInput \<Rightarrow> 'r PromptTextInput" where
  "blur_event s = s\<lparr>render := removeClass ''input-has-focus'' (render s)\<rparr>"

definition focusTextarea :: "'r PromptTextInput \<Rightarrow> 'r PromptTextInput" where
  "focusTextarea s =
     (if focusable (promptTextInput s) \<and> \<not> hasFocus (promptTextInput s)
      then focus_event (s\<lparr>promptTextInput := (promptTextInput s)\<lparr>hasFocus := True\<rparr>\<rparr>)
      else s)"

definition updatePromptTextInputSizer ::
  "PlaceHolder option \<Rightarrow> 'r PromptTextInput \<Rightarrow> 'r PromptTextInput" where
  "updatePromptTextInputSizer placeHolder s =
     (let s1 = (if trim (textarea_value (promptTextInput s)) \<noteq> []
                then s\<lparr>render := removeClass ''no-text'' (render s)\<rparr>
                else s\<lparr>render := addClass ''no-text'' (render s)\<rparr>);
          v = textarea_value (promptTextInput s1);
          initProcessedValue =
            (case (case placeHolder of None \<Rightarrow> None | Some ph \<Rightarrow> ph_text ph) of
               None \<Rightarrow> v
             | Some t \<Rightarrow>
                 (let i = (case (case placeHolder of None \<Rightarrow> None | Some ph \<Rightarrow> ph_index ph) of
                             None \<Rightarrow> int (length v) | Some n \<Rightarrow> n)
                  in substring 0 i v @ lit '' <span class=\"placeholder\">'' @ t
                     @ lit ''</span> '' @ substring (i + 1) (int (length v)) v))
      in s1\<lparr>promptTextInputSizer := (promptTextInputSizer s1)
            \<lparr>innerHTML := wrapContext False (replaceNewlines initProcessedValue) @ lit ''&nbsp''\<rparr>\<rparr>)"

definition getCursorPos :: "'r PromptTextInput \<Rightarrow> nat" where
  "getCursorPos s =
     (case selectionStart (promptTextInput s) of
        Some n \<Rightarrow> n
      | None \<Rightarrow> length (textarea_value (promptTextInput s)))"

definition getTextInputValue :: "'r PromptTextInput \<Rightarrow> jsstring" where
  "getTextInputValue s = textarea_value (promptTextInput s)"

definition updateTextInputValue ::
  "jsstring \<Rightarrow> PlaceHolder option \<Rightarrow> 'r PromptTextInput \<Rightarrow> 'r PromptTextInput" where
  "updateTextInputValue v placeHolder s =
     updatePromptTextInputSizer placeHolder
       (s\<lparr>promptTextInput := set_textarea_value v (promptTextInput s)\<rparr>)"

definition updateTextInputPlaceholder :: "jsstring \<Rightarrow> 'r PromptTextInput \<Rightarrow> 'r PromptTextInput" where
  "updateTextInputPlaceholder t s =
     s\<lparr>promptTextInput := setAttribute ''placeholder'' t (promptTextInput s)\<rparr>"

text \<open>
  \<^verbatim>\<open>focus\<close>; \<open>cursorIndex\<close> is \<open>None\<close> for \<^verbatim>\<open>undefined\<close> or \<^verbatim>\<open>null\<close> and a
  number otherwise.
\<close>

definition focus :: "Config \<Rightarrow> jsnumber option \<Rightarrow> 'r PromptTextInput \<Rightarrow> 'r PromptTextInput" where
  "focus cfg cursorIndex s =
     (let s1 = (if autoFocus cfg then focusTextarea s else s)
      in case cursorIndex of
           Some i \<Rightarrow> s1\<lparr>promptTextInput := setSelectionRange i i (promptTextInput s1)\<rparr>
         | None \<Rightarrow> updateTextInputValue [] None s1)"

text \<open>
  \<^verbatim>\<open>clear\<close>; the argument \<open>defaultPlaceholder\<close> is the tab store's value of
  \<^verbatim>\<open>promptInputPlaceholder\<close>.
\<close>

definition clear :: "jsstring \<Rightarrow> 'r PromptTextInput \<Rightarrow> 'r PromptTextInput" where
  "clear defaultPlaceholder s =
     (let s1 = s\<lparr>promptTextInputSizer := (promptTextInputSizer s)\<lparr>innerHTML := []\<rparr>\<rparr>;
          s2 = updateTextInputValue [] None s1;
          s3 = updateTextInputPlaceholder defaultPlaceholder s2
      in s3\<lparr>render := addClass ''no-text'' (render s3)\<rparr>)"

text \<open>The textarea's \<^verbatim>\<open>keypress\<close>, \<^verbatim>\<open>keydown\<close> and \<^verbatim>\<open>input\<close> event handlers.\<close>

definition keypress_event :: "KeyboardEvent \<Rightarrow> 'r PromptTextInput \<Rightarrow> 'r PromptTextInput \<times> 'r list" where
  "keypress_event e s = (s, if \<not> keydownSupport s then [onKeydown (props s) e] else [])"

definition keydown_event :: "KeyboardEvent \<Rightarrow> 'r PromptTextInput \<Rightarrow> 'r PromptTextInput \<times> 'r list" where
  "keydown_event e s =
     (if key e \<noteq> [] then (s\<lparr>keydownSupport := True\<rparr>, [onKeydown (props s) e])
      else (s\<lparr>keydownSupport := False\<rparr>, []))"

definition input_event :: "KeyboardEvent \<Rightarrow> 'r PromptTextInput \<Rightarrow> 'r PromptTextInput \<times> 'r list" where
  "input_event e s =
     (let s1 = updatePromptTextInputSizer None s
      in case onInput (props s1) of
           Some f \<Rightarrow> (s1, [f e])
         | None \<Rightarrow> (s1, []))"

text \<open>
  The callbacks subscribed to the tab store's \<^verbatim>\<open>promptInputDisabledState\<close> and
  \<^verbatim>\<open>promptInputPlaceholder\<close>, and the listener of \<^verbatim>\<open>TAB_FOCUS\<close>.
\<close>

definition promptInputDisabledState_changed ::
  "Config \<Rightarrow> bool \<Rightarrow> 'r PromptTextInput \<Rightarrow> 'r PromptTextInput" where
  "promptInputDisabledState_changed cfg isDisabled s =
     (if isDisabled
      then s\<lparr>promptTextInput := setAttribute ''disabled'' (lit ''disabled'') (promptTextInput s)\<rparr>
      else (let s1 = s\<lparr>promptTextInput := removeAttribute ''disabled'' (promptTextInput s)\<rparr>
            in if autoFocus cfg then focusTextarea s1 else s1))"

definition promptInputPlaceholder_changed ::
  "jsstring option \<Rightarrow> 'r PromptTextInput \<Rightarrow> 'r PromptTextInput" where
  "promptInputPlaceholder_changed placeholderText s =
     (case placeholderText of
        Some t \<Rightarrow> s\<lparr>promptTextInput := setAttribute ''placeholder'' t (promptTextInput s)\<rparr>
      | None \<Rightarrow> s)"

definition tab_focus :: "jsstring \<Rightarrow> 'r PromptTextInput \<Rightarrow> 'r PromptTextInput" where
  "tab_focus dataTabId s = (if dataTabId = tabId (props s) then focusTextarea s else s)"

section \<open>The select box\<close>

record 'r SelectProps =
  options :: "SelectOption list option"
  onChange :: "(jsstring \<Rightarrow> 'r) option"

record 'r Select =
  selectElement :: select_element
  sel_props :: "'r SelectProps"

text \<open>
  The constructor, as far as the select element goes: one \<^verbatim>\<open>option\<close> child for each of
  \<^verbatim>\<open>props.options\<close>, with the option's value. A new select element has its first option
  selected.
\<close>

definition new_Select :: "'r SelectProps \<Rightarrow> 'r Select" where
  "new_Select p =
     (let vals = (case options p of None \<Rightarrow> [] | Some os \<Rightarrow> map opt_value os)
      in \<lparr>selectElement =
             \<lparr>tagName = ''select'', classNames = [''mynah-form-input''],
              attributes = Map.empty, innerHTML = [], hasFocus = False, isConnected = False,
              optionValues = vals,
              selectedIndex = (if vals = [] then None else Some 0)\<rparr>,
           sel_props = p\<rparr>)"

text \<open>
  The \<^verbatim>\<open>change\<close> event handler of the select element; \<^verbatim>\<open>e.currentTarget\<close> is the
  select element itself.
\<close>

definition change_event :: "'r Select \<Rightarrow> 'r list" where
  "change_event s =
     (case onChange (sel_props s) of
        Some f \<Rightarrow> [f (select_value (selectElement s))]
      | None \<Rightarrow> [])"

definition setValue :: "jsstring \<Rightarrow> 'r Select \<Rightarrow> 'r Select" where
  "setValue v s = s\<lparr>selectElement := set_select_value v (selectElement s)\<rparr>"

definition getValue :: "'r Select \<Rightarrow> jsstring" where
  "getValue s = select_value (selectElement s)"

definition setEnabled :: "bool \<Rightarrow> 'r Select \<Rightarrow> 'r Select" where
  "setEnabled enabled s =
     (if enabled
      then s\<lparr>selectElement := removeAttribute ''disabled'' (selectElement s)\<rparr>
      else s\<lparr>selectElement := setAttribute ''disabled'' (lit ''disabled'') (selectElement s)\<rparr>)"

section \<open>The feedback form\<close>

datatype error = TypeError

text \<open>
  A method that may throw: \<open>Normal s\<close> when it returns leaving the widget in state \<open>s\<close>,
  \<open>Throw e s\<close> when it throws \<open>e\<close>; the assignments made before the throw stay, so the
  state is kept there too.
\<close>

datatype 's completion = Normal 's | Throw error 's

fun state_of :: "'s completion \<Rightarrow> 's" where
  "state_of (Normal s) = s"
| "state_of (Throw e s) = s"

record FeedbackPayload =
  messageId :: jsstring
  selectedOption :: jsstring
  tabId_of :: jsstring
  comment :: jsstring

text \<open>
  Modelled from the spec: \<^verbatim>\<open>FeedbackFormComment\<close> is not among the sources. It is the
  widget of the "submitted comment": a textarea whose value is the comment, emptied by
  \<^verbatim>\<open>clear\<close>.
\<close>

record FeedbackFormComment =
  commentElement :: textarea

definition new_FeedbackFormComment :: "jsstring \<Rightarrow> FeedbackFormComment" where
  "new_FeedbackFormComment initComment =
     \<lparr>commentElement =
        \<lparr>tagName = ''textarea'', classNames = [], attributes = Map.empty, innerHTML = [],
         hasFocus = False, isConnected = False,
         rawValue = initComment,
         selectionStart = Some (length (normalizeNewlines initComment)),
         selectionEnd = Some (length (normalizeNewlines initComment))\<rparr>\<rparr>"

definition comment_clear :: "FeedbackFormComment \<Rightarrow> FeedbackFormComment" where
  "comment_clear c = c\<lparr>commentElement := set_textarea_value [] (commentElement c)\<rparr>"

text \<open>
  What the callbacks given to the two child widgets do to the form: the select's
  \<^verbatim>\<open>onChange\<close> and the comment's \<^verbatim>\<open>onChange\<close>.
\<close>

datatype form_action = SetSelectedOption jsstring | SetComment jsstring

record FeedbackForm =
  feedbackFormWrapper :: "element option"
  feedbackOptionsWrapper :: "form_action Select"
  feedbackComment :: FeedbackFormComment
  feedbackPayload :: FeedbackPayload
  feedbackFormContainer :: element

fun form_apply :: "form_action \<Rightarrow> FeedbackForm \<Rightarrow> FeedbackForm" where
  "form_apply (SetSelectedOption v) s =
     s\<lparr>feedbackPayload := (feedbackPayload s)\<lparr>selectedOption := v\<rparr>\<rparr>"
| "form_apply (SetComment c) s =
     s\<lparr>feedbackPayload := (feedbackPayload s)\<lparr>comment := c\<rparr>\<rparr>"

text \<open>
  The payload the constructor stores: the default, overridden by \<^verbatim>\<open>props?.initPayload\<close>
  when that is given. Reading \<^verbatim>\<open>feedbackOptions[0].value\<close> throws when there is no
  feedback option.
\<close>

definition initialFeedbackPayload ::
  "Config \<Rightarrow> FeedbackPayload option \<Rightarrow> error + FeedbackPayload" where
  "initialFeedbackPayload cfg initPayload =
     (case feedbackOptions cfg of
        [] \<Rightarrow> Inl TypeError
      | opt # _ \<Rightarrow>
          (case initPayload of
             Some p \<Rightarrow> Inr p
           | None \<Rightarrow> Inr \<lparr>messageId = [], selectedOption = opt_value opt,
                           tabId_of = [], comment = []\<rparr>))"

text \<open>
  The constructor: the payload, the select built from the configured feedback options, the
  comment widget with the payload's comment, and the form container; the wrapper is
  created later, by the listener of \<^verbatim>\<open>SHOW_FEEDBACK_FORM\<close>.
\<close>

definition new_FeedbackForm :: "Config \<Rightarrow> FeedbackPayload option \<Rightarrow> error + FeedbackForm" where
  "new_FeedbackForm cfg initPayload =
     (case initialFeedbackPayload cfg initPayload of
        Inl e \<Rightarrow> Inl e
      | Inr p \<Rightarrow>
          Inr \<lparr>feedbackFormWrapper = None,
               feedbackOptionsWrapper =
                 new_Select \<lparr>options = Some (feedbackOptions cfg),
                             onChange = Some SetSelectedOption\<rparr>,
               feedbackComment = new_FeedbackFormComment (comment p),
               feedbackPayload = p,
               feedbackFormContainer = build ''div'' [''mynah-feedback-form''] Map.empty\<rparr>)"

text \<open>
  \<^verbatim>\<open>createPortal\<close> (from \<^verbatim>\<open>helper/dom\<close>, see above) with the builder object the
  listener passes: a \<^verbatim>\<open>div\<close> with the id \<^verbatim>\<open>mynah-feedback-form-wrapper\<close>, put
  into the document.
\<close>

definition createPortal :: element where
  "createPortal =
     \<lparr>tagName = ''div'', classNames = [],
      attributes = [''id'' \<mapsto> lit ''mynah-feedback-form-wrapper''],
      innerHTML = [], hasFocus = False, isConnected = True\<rparr>"

definition "show" :: "FeedbackForm \<Rightarrow> FeedbackForm completion" where
  "show s =
     (case feedbackFormWrapper s of
        None \<Rightarrow> Throw TypeError s
      | Some w \<Rightarrow> Normal (s\<lparr>feedbackFormWrapper := Some (addClass ''mynah-feedback-form-show'' w)\<rparr>))"

definition close :: "Config \<Rightarrow> FeedbackForm \<Rightarrow> FeedbackForm completion" where
  "close cfg s =
     (let s1 = s\<lparr>feedbackComment := comment_clear (feedbackComment s)\<rparr>
      in case feedbackOptions cfg of
           [] \<Rightarrow> Throw TypeError s1
         | opt # _ \<Rightarrow>
             (let s2 = s1\<lparr>feedbackOptionsWrapper := setValue (opt_value opt) (feedbackOptionsWrapper s1)\<rparr>;
                  s3 = s2\<lparr>feedbackPayload := \<lparr>messageId = [], selectedOption = opt_value opt,
                                                tabId_of = [], comment = []\<rparr>\<rparr>
              in case feedbackFormWrapper s3 of
                   None \<Rightarrow> Throw TypeError s3
                 | Some w \<Rightarrow>
                     Normal (s3\<lparr>feedbackFormWrapper := Some (removeClass ''mynah-feedback-form-show'' w)\<rparr>)))"

text \<open>
  The listener of \<^verbatim>\<open>SHOW_FEEDBACK_FORM\<close>. It returns the new state and the timers it
  has set with \<^verbatim>\<open>setTimeout\<close>: the delay in milliseconds and the deferred function.
\<close>

record ShowFeedbackFormData =
  data_messageId :: jsstring
  data_tabId :: jsstring

definition show_feedback_form ::
  "ShowFeedbackFormData \<Rightarrow> FeedbackForm
     \<Rightarrow> FeedbackForm \<times> (nat \<times> (FeedbackForm \<Rightarrow> FeedbackForm completion)) list" where
  "show_feedback_form d s =
     (let s1 = (case feedbackFormWrapper s of
                  None \<Rightarrow> s\<lparr>feedbackFormWrapper := Some createPortal\<rparr>
                | Some _ \<Rightarrow> s);
          s2 = s1\<lparr>feedbackPayload := (feedbackPayload s1)\<lparr>messageId := data_messageId d\<rparr>\<rparr>;
          s3 = s2\<lparr>feedbackPayload := (feedbackPayload s2)\<lparr>tabId_of := data_tabId d\<rparr>\<rparr>
      in (s3, [(5, show)]))"

section \<open>The syntax highlighter\<close>

datatype CodeSelectionType = Selection | Block

record 'r SyntaxHighlighterProps =
  codeStringWithMarkup :: jsstring
  index :: "int option"
  onCopiedToClipboard_prop :: "(CodeSelectionType option \<Rightarrow> jsstring \<Rightarrow> int option \<Rightarrow> 'r) option"

record 'r SyntaxHighlighter =
  sh_props :: "'r SyntaxHighlighterProps"
  sh_render :: element

text \<open>
  What a handler does outside the widget is the list of effects it returns: a text written
  to the clipboard, or a call of a callback prop.
\<close>

datatype 'r effect = ClipboardWrite jsstring | Called 'r



definition onCopiedToClipboard ::
  "'r SyntaxHighlighter \<Rightarrow> jsstring \<Rightarrow> CodeSelectionType option \<Rightarrow> 'r effect list" where
  "onCopiedToClipboard s textToSendClipboard type =
     (case onCopiedToClipboard_prop (sh_props s) of
        Some f \<Rightarrow> [Called (f type textToSendClipboard (index (sh_props s)))]
      | None \<Rightarrow> [])"


section \<open>Example states\<close>

definition examplePrompt :: "jsstring PromptTextInput" where
  "examplePrompt =
     \<lparr>render = (build ''div'' [''mynah-chat-prompt-input-inner-wrapper'', ''no-text''] Map.empty)
                 \<lparr>isConnected := True\<rparr>,
      promptTextInputMaxLength = 4000,
      props = \<lparr>tabId = lit ''tab-1'', initMaxLength = 4000, onKeydown = key, onInput = None\<rparr>,
      promptTextInputSizer =
        (build ''span'' [''mynah-chat-prompt-input'', ''mynah-chat-prompt-input-sizer''] Map.empty)
          \<lparr>isConnected := True\<rparr>,
      promptTextInput =
        \<lparr>tagName = ''textarea'', classNames = [''mynah-chat-prompt-input''],
         attributes = [''tabindex'' \<mapsto> lit ''1'', ''rows'' \<mapsto> lit ''1''],
         innerHTML = [], hasFocus = False, isConnected = True,
         rawValue = [], selectionStart = Some 0, selectionEnd = Some 0\<rparr>,
      keydownSupport = True\<rparr>"

definition exampleConfig :: Config where
  "exampleConfig =
     \<lparr>autoFocus = True,
      feedbackOptions =
        [\<lparr>opt_value = lit ''helpful'', opt_label = lit ''Helpful''\<rparr>,
         \<lparr>opt_value = lit ''other'', opt_label = lit ''Other''\<rparr>]\<rparr>"

definition exampleSelect :: "form_action Select" where
  "exampleSelect =
     new_Select \<lparr>options = Some (feedbackOptions exampleConfig), onChange = Some SetSelectedOption\<rparr>"

text \<open>
  A feedback form in use: shown for the message \<^verbatim>\<open>m1\<close>, with the second option picked
  and a comment typed.
\<close>

definition exampleForm :: FeedbackForm where
  "exampleForm =
     \<lparr>feedbackFormWrapper = Some (addClass ''mynah-feedback-form-show'' createPortal),
      feedbackOptionsWrapper =
        exampleSelect\<lparr>selectElement := (selectElement exampleSelect)\<lparr>selectedIndex := Some 1\<rparr>\<rparr>,
      feedbackComment =
        \<lparr>commentElement =
           (commentElement (new_FeedbackFormComment []))
             \<lparr>rawValue := lit ''too slow'', selectionStart := Some 8, selectionEnd := Some 8\<rparr>\<rparr>,
      feedbackPayload =
        \<lparr>messageId = lit ''m1'', selectedOption = lit ''other'', tabId_of = lit ''tab-1'',
         comment = lit ''too slow''\<rparr>,
      feedbackFormContainer = build ''div'' [''mynah-feedback-form''] Map.empty\<rparr>"



section \<open>Properties\<close>

subsection \<open>The DOM elements\<close>

lemma normalizeNewlines_no_CR: "0x0D \<notin> set (normalizeNewlines v)"
  by (induction v rule: normalizeNewlines.induct) auto

lemma normalizeNewlines_fixpoint: "(normalizeNewlines v = v) = (0x0D \<notin> set v)"
proof (induction v rule: normalizeNewlines.induct)
  case (3 c d ds)
  then show ?case
    using normalizeNewlines_no_CR [of ds] normalizeNewlines_no_CR [of "d # ds"]
    by (auto simp del: normalizeNewlines.simps(3) simp add: normalizeNewlines.simps(3) [of c d ds])
qed auto

lemma textarea_value_set_textarea_value:
  "textarea_value (set_textarea_value v t) = normalizeNewlines v"
  by (simp add: textarea_value_def set_textarea_value_def Let_def)

lemma rawValue_set_textarea_value: "rawValue (set_textarea_value v t) = v"
  by (simp add: set_textarea_value_def Let_def)

lemma firstIndex_spec:
  "(case firstIndex v xs of None \<Rightarrow> v \<notin> set xs | Some i \<Rightarrow> i < length xs \<and> xs ! i = v)"
  by (induction xs) (auto split: option.splits)

lemma select_value_set_select_value:
  "select_value (set_select_value v e) = (if v \<in> set (optionValues e) then v else [])"
  using firstIndex_spec [of v "optionValues e"]
  by (auto simp add: select_value_def set_select_value_def split: option.splits)

subsection \<open>The model at concrete inputs\<close>

lemma updateTextInputValue_example:
  "innerHTML (promptTextInputSizer (updateTextInputValue (lit ''hi @bob'') None examplePrompt))
     = lit ''hi <span class=\"context\">@bob</span>&nbsp''
   \<and> classNames (render (updateTextInputValue (lit ''hi @bob'') None examplePrompt))
     = [''mynah-chat-prompt-input-inner-wrapper'']
   \<and> selectionStart (promptTextInput (updateTextInputValue (lit ''hi @bob'') None examplePrompt))
     = Some 7"
  by (simp add: updateTextInputValue_def updatePromptTextInputSizer_def examplePrompt_def
      build_def removeClass_def addClass_def trim_def isWhiteSpace_def lit_def Let_def
      set_textarea_value_def textarea_value_def)

lemma updateTextInputValue_placeholder_example:
  "innerHTML (promptTextInputSizer
     (updateTextInputValue (lit ''ab'') (Some \<lparr>ph_index = Some 1, ph_text = Some (lit ''x'')\<rparr>)
        examplePrompt))
     = lit ''a <span class=\"placeholder\">x</span> &nbsp''"
  by (simp add: updateTextInputValue_def updatePromptTextInputSizer_def examplePrompt_def
      build_def removeClass_def addClass_def trim_def isWhiteSpace_def lit_def Let_def
      substring_def clampIndex_def set_textarea_value_def textarea_value_def)

lemma focus_disabled_example:
  "focusTextarea (promptInputDisabledState_changed exampleConfig True examplePrompt)
     = promptInputDisabledState_changed exampleConfig True examplePrompt
   \<and> hasFocus (promptTextInput (focusTextarea examplePrompt))
   \<and> classNames (render (focusTextarea examplePrompt))
     = [''mynah-chat-prompt-input-inner-wrapper'', ''no-text'', ''input-has-focus'']"
  by (simp add: focusTextarea_def focusable_def promptInputDisabledState_changed_def
      setAttribute_def examplePrompt_def build_def focus_event_def addClass_def)

lemma new_FeedbackForm_example:
  "new_FeedbackForm exampleConfig None =
     Inr \<lparr>feedbackFormWrapper = None,
          feedbackOptionsWrapper = exampleSelect,
          feedbackComment = new_FeedbackFormComment [],
          feedbackPayload =
            \<lparr>messageId = [], selectedOption = lit ''helpful'', tabId_of = [], comment = []\<rparr>,
          feedbackFormContainer = build ''div'' [''mynah-feedback-form''] Map.empty\<rparr>
   \<and> getValue exampleSelect = lit ''helpful''"
  by (simp add: new_FeedbackForm_def initialFeedbackPayload_def exampleConfig_def
      exampleSelect_def new_Select_def getValue_def select_value_def)

lemma close_before_show_example:
  "close exampleConfig (exampleForm\<lparr>feedbackFormWrapper := None\<rparr>) =
     Throw TypeError
       (exampleForm
          \<lparr>feedbackFormWrapper := None,
           feedbackComment := new_FeedbackFormComment [],
           feedbackOptionsWrapper := exampleSelect,
           feedbackPayload :=
             \<lparr>messageId = [], selectedOption = lit ''helpful'', tabId_of = [], comment = []\<rparr>\<rparr>)"
  by (simp add: close_def exampleConfig_def exampleForm_def exampleSelect_def new_Select_def
      comment_clear_def new_FeedbackFormComment_def set_textarea_value_def textarea_value_def
      setValue_def set_select_value_def lit_def Let_def)

lemma close_after_show_example:
  "close exampleConfig exampleForm =
     Normal
       (exampleForm
          \<lparr>feedbackFormWrapper := Some createPortal,
           feedbackComment := new_FeedbackFormComment [],
           feedbackOptionsWrapper := exampleSelect,
           feedbackPayload :=
             \<lparr>messageId = [], selectedOption = lit ''helpful'', tabId_of = [], comment = []\<rparr>\<rparr>)"
  by (simp add: close_def exampleConfig_def exampleForm_def exampleSelect_def new_Select_def
      comment_clear_def new_FeedbackFormComment_def set_textarea_value_def textarea_value_def
      setValue_def set_select_value_def createPortal_def addClass_def removeClass_def
      lit_def Let_def)

text \<open>
  The select of a feedback form has the configured feedback options from its construction
  on, and no method of the form changes them.
\<close>

lemma new_FeedbackForm_options:
  "(case new_FeedbackForm cfg initPayload of
      Inl e \<Rightarrow> feedbackOptions cfg = []
    | Inr s \<Rightarrow> optionValues (selectElement (feedbackOptionsWrapper s))
                = map opt_value (feedbackOptions cfg))"
  by (simp add: new_FeedbackForm_def initialFeedbackPayload_def new_Select_def Let_def
      split: list.splits option.splits)

lemma methods_keep_options:
  "optionValues (selectElement (feedbackOptionsWrapper (state_of (close cfg s))))
     = optionValues (selectElement (feedbackOptionsWrapper s))
   \<and> optionValues (selectElement (feedbackOptionsWrapper (state_of (show s))))
     = optionValues (selectElement (feedbackOptionsWrapper s))
   \<and> optionValues (selectElement (feedbackOptionsWrapper (fst (show_feedback_form d s))))
     = optionValues (selectElement (feedbackOptionsWrapper s))
   \<and> optionValues (selectElement (feedbackOptionsWrapper (form_apply a s)))
     = optionValues (selectElement (feedbackOptionsWrapper s))"
  by (cases a)
     (simp_all add: close_def show_def show_feedback_form_def setValue_def set_select_value_def
        Let_def split: list.splits option.splits)

subsection \<open>The prompt text input\<close>

lemma value_updatePromptTextInputSizer:
  "promptTextInput (updatePromptTextInputSizer ph s) = promptTextInput s"
  by (simp add: updatePromptTextInputSizer_def Let_def)

lemma getTextInputValue_updateTextInputValue:
  "getTextInputValue (updateTextInputValue v ph s) = normalizeNewlines v"
  by (simp add: getTextInputValue_def updateTextInputValue_def value_updatePromptTextInputSizer
      textarea_value_set_textarea_value)

lemma focusTextarea_frame:
  "textarea_value (promptTextInput (focusTextarea s)) = textarea_value (promptTextInput s)
   \<and> attributes (promptTextInput (focusTextarea s)) = attributes (promptTextInput s)
   \<and> promptTextInputSizer (focusTextarea s) = promptTextInputSizer s"
  by (simp add: focusTextarea_def focus_event_def textarea_value_def)

lemma setSelectionRange_frame:
  "textarea_value (setSelectionRange a b t) = textarea_value t
   \<and> attributes (setSelectionRange a b t) = attributes t"
  by (simp add: setSelectionRange_def textarea_value_def Let_def)

lemma setSelectionRange_collapsed:
  "setSelectionRange a a t =
     t\<lparr>selectionStart := Some (min (toUint32 a) (length (textarea_value t))),
       selectionEnd := Some (min (toUint32 a) (length (textarea_value t)))\<rparr>"
  by (simp add: setSelectionRange_def Let_def)

lemma focus_cursorIndex:
  "focus cfg (Some i) s =
     (if autoFocus cfg then focusTextarea s else s)
       \<lparr>promptTextInput :=
          setSelectionRange i i (promptTextInput (if autoFocus cfg then focusTextarea s else s))\<rparr>"
  by (simp add: focus_def Let_def)

lemma selection_focus_cursorIndex:
  "selectionStart (promptTextInput (focus cfg (Some i) s))
     = Some (min (toUint32 i) (length (getTextInputValue s)))
   \<and> selectionEnd (promptTextInput (focus cfg (Some i) s))
     = Some (min (toUint32 i) (length (getTextInputValue s)))"
  by (simp add: focus_cursorIndex setSelectionRange_collapsed focusTextarea_frame
      getTextInputValue_def)

lemma setSelectionRange_example:
  "selectionStart (promptTextInput
      (focus exampleConfig (Some (Finite 4294967297))
         (updateTextInputValue (lit ''abc'') None examplePrompt))) = Some 1
   \<and> selectionStart (promptTextInput
      (focus exampleConfig (Some (Finite (- 1)))
         (updateTextInputValue (lit ''abc'') None examplePrompt))) = Some 3
   \<and> selectionStart (promptTextInput
      (focus exampleConfig (Some NaN)
         (updateTextInputValue (lit ''abc'') None examplePrompt))) = Some 0"
  by (simp add: selection_focus_cursorIndex getTextInputValue_updateTextInputValue lit_def)

text \<open>
  C1 does not hold as stated: the textarea reads a carriage return back as a line feed.
\<close>

theorem updateTextInputValue_roundtrip_counterexample:
  "getTextInputValue (updateTextInputValue [0x61, 0x0D, 0x0A, 0x62] None examplePrompt)
     = [0x61, 0x0A, 0x62]
   \<and> getTextInputValue (updateTextInputValue [0x61, 0x0D, 0x0A, 0x62] None examplePrompt)
     \<noteq> [0x61, 0x0D, 0x0A, 0x62]"
  by (simp add: getTextInputValue_updateTextInputValue)

text \<open>
  C1, amended: for every string \<open>v\<close>, \<^verbatim>\<open>updateTextInputValue(v)\<close> without a placeholder
  hands \<open>v\<close> unmodified to the textarea, and \<^verbatim>\<open>getTextInputValue()\<close> then returns \<open>v\<close>
  with every CR LF pair and every remaining CR replaced by LF; it returns exactly \<open>v\<close> if
  and only if \<open>v\<close> contains no carriage return.
\<close>

theorem updateTextInputValue_roundtrip:
  "getTextInputValue (updateTextInputValue v None s) = normalizeNewlines v
   \<and> (getTextInputValue (updateTextInputValue v None s) = v) = (0x0D \<notin> set v)
   \<and> rawValue (promptTextInput (updateTextInputValue v None s)) = v"
proof -
  have raw: "rawValue (promptTextInput (updateTextInputValue v None s)) = v"
    by (simp add: updateTextInputValue_def value_updatePromptTextInputSizer
        rawValue_set_textarea_value)
  show ?thesis
    using raw by (simp add: getTextInputValue_updateTextInputValue normalizeNewlines_fixpoint)
qed

text \<open>
  C7: \<^verbatim>\<open>getCursorPos()\<close> returns the textarea's \<^verbatim>\<open>selectionStart\<close> when it is not
  null and the length of the current text value otherwise; it has no failing branch.
\<close>

theorem getCursorPos_fallback:
  "getCursorPos s =
     (case selectionStart (promptTextInput s) of
        Some n \<Rightarrow> n
      | None \<Rightarrow> length (getTextInputValue s))"
  by (simp add: getCursorPos_def getTextInputValue_def split: option.splits)

text \<open>
  C9 does not hold as stated: an index beyond the end of the text moves the selection to
  the end of the text, not to that index.
\<close>

theorem focus_cursorIndex_counterexample:
  "selectionStart (promptTextInput
      (focus exampleConfig (Some (Finite 10))
         (updateTextInputValue (lit ''abc'') None examplePrompt))) = Some 3
   \<and> selectionStart (promptTextInput
      (focus exampleConfig (Some (Finite 10))
         (updateTextInputValue (lit ''abc'') None examplePrompt))) \<noteq> Some 10"
  by (simp add: selection_focus_cursorIndex getTextInputValue_updateTextInputValue lit_def)

text \<open>
  C9, amended: \<^verbatim>\<open>focus(cursorIndex)\<close> with a cursor index leaves the text value (and the
  sizer and the attributes) unchanged and moves the selection range to that index, converted
  to an unsigned 32-bit integer and then limited to the length of the text. Without
  \<^verbatim>\<open>autoFocus\<close> the selection range is all that changes; with it the textarea is asked to
  take the focus first. \<^verbatim>\<open>focus()\<close> without a cursor index resets the text value to the
  empty string.
\<close>

theorem focus_cursorIndex_frame:
  "getTextInputValue (focus cfg (Some i) s) = getTextInputValue s
   \<and> promptTextInputSizer (focus cfg (Some i) s) = promptTextInputSizer s
   \<and> attributes (promptTextInput (focus cfg (Some i) s)) = attributes (promptTextInput s)
   \<and> selectionStart (promptTextInput (focus cfg (Some i) s))
       = Some (min (toUint32 i) (length (getTextInputValue s)))
   \<and> selectionEnd (promptTextInput (focus cfg (Some i) s))
       = Some (min (toUint32 i) (length (getTextInputValue s)))
   \<and> focus (cfg\<lparr>autoFocus := False\<rparr>) (Some i) s =
       s\<lparr>promptTextInput := (promptTextInput s)
           \<lparr>selectionStart := Some (min (toUint32 i) (length (getTextInputValue s))),
            selectionEnd := Some (min (toUint32 i) (length (getTextInputValue s)))\<rparr>\<rparr>
   \<and> focus (cfg\<lparr>autoFocus := True\<rparr>) (Some i) s =
       (focusTextarea s)\<lparr>promptTextInput := (promptTextInput (focusTextarea s))
           \<lparr>selectionStart := Some (min (toUint32 i) (length (getTextInputValue s))),
            selectionEnd := Some (min (toUint32 i) (length (getTextInputValue s)))\<rparr>\<rparr>
   \<and> getTextInputValue (focus cfg None s) = []"
proof -
  have val: "getTextInputValue (focus cfg (Some i) s) = getTextInputValue s"
    by (simp add: focus_cursorIndex getTextInputValue_def setSelectionRange_frame
        focusTextarea_frame)
  have sizer: "promptTextInputSizer (focus cfg (Some i) s) = promptTextInputSizer s"
    by (simp add: focus_cursorIndex focusTextarea_frame)
  have attrs: "attributes (promptTextInput (focus cfg (Some i) s)) = attributes (promptTextInput s)"
    by (simp add: focus_cursorIndex setSelectionRange_frame focusTextarea_frame)
  have off: "focus (cfg\<lparr>autoFocus := False\<rparr>) (Some i) s =
       s\<lparr>promptTextInput := (promptTextInput s)
           \<lparr>selectionStart := Some (min (toUint32 i) (length (getTextInputValue s))),
            selectionEnd := Some (min (toUint32 i) (length (getTextInputValue s)))\<rparr>\<rparr>"
    by (simp add: focus_cursorIndex setSelectionRange_collapsed getTextInputValue_def)
  have on: "focus (cfg\<lparr>autoFocus := True\<rparr>) (Some i) s =
       (focusTextarea s)\<lparr>promptTextInput := (promptTextInput (focusTextarea s))
           \<lparr>selectionStart := Some (min (toUint32 i) (length (getTextInputValue s))),
            selectionEnd := Some (min (toUint32 i) (length (getTextInputValue s)))\<rparr>\<rparr>"
    by (simp add: focus_cursorIndex setSelectionRange_collapsed focusTextarea_frame
        getTextInputValue_def)
  have reset: "getTextInputValue (focus cfg None s) = []"
    by (simp add: focus_def getTextInputValue_updateTextInputValue Let_def)
  show ?thesis
    using val sizer attrs selection_focus_cursorIndex [of cfg i s] off on reset by simp
qed

subsection \<open>The select box and the disabled state\<close>

text \<open>
  C5 does not hold as stated: a value that no option of the select has is not kept.
\<close>

theorem setValue_getValue_counterexample:
  "getValue (setValue (lit ''zzz'') exampleSelect) = []
   \<and> getValue (setValue (lit ''zzz'') exampleSelect) \<noteq> lit ''zzz''"
  by (simp add: getValue_def setValue_def select_value_def set_select_value_def exampleSelect_def
      new_Select_def exampleConfig_def lit_def)

text \<open>
  C5, amended: for every string \<open>v\<close> that is the value of one of the select's options,
  \<^verbatim>\<open>setValue(v)\<close> followed by \<^verbatim>\<open>getValue()\<close> returns \<open>v\<close>; for any other \<open>v\<close> it
  returns the empty string.
\<close>

theorem setValue_getValue_roundtrip:
  "getValue (setValue v s) = (if v \<in> set (optionValues (selectElement s)) then v else [])"
  by (simp add: getValue_def setValue_def select_value_set_select_value)

text \<open>
  C4: after the boolean \<open>b\<close> is delivered on the subscription to
  \<^verbatim>\<open>promptInputDisabledState\<close>, the textarea has the attribute \<^verbatim>\<open>disabled="disabled"\<close>
  exactly when \<open>b\<close> is true; \<^verbatim>\<open>setEnabled(false)\<close> sets that attribute on the select element
  and \<^verbatim>\<open>setEnabled(true)\<close> removes it.
\<close>

theorem disabled_attribute_reflects_state:
  "(attributes (promptTextInput (promptInputDisabledState_changed cfg b s)) ''disabled''
      = Some (lit ''disabled'')) = b
   \<and> attributes (selectElement (setEnabled False t)) ''disabled'' = Some (lit ''disabled'')
   \<and> attributes (selectElement (setEnabled True t)) ''disabled'' = None"
  by (simp add: promptInputDisabledState_changed_def setEnabled_def setAttribute_def
      removeAttribute_def focusTextarea_def focus_event_def Let_def)

subsection \<open>Optional callback props\<close>

text \<open>
  C6: a handler whose optional callback prop is absent does its other work and calls
  nothing; when the prop is present it is called with the event's data. The \<^verbatim>\<open>input\<close>
  event of the prompt input updates the sizer, whose content becomes the markup of the
  current text, and calls \<^verbatim>\<open>onInput\<close> with the event if it is there; the highlighter's
  \<^verbatim>\<open>onCopiedToClipboard\<close> calls the prop with the type, the text and the code block index
  if it is there; the select's \<^verbatim>\<open>change\<close> event calls \<^verbatim>\<open>onChange\<close> with the select's
  value if it is there. None of the three has a failing branch.
\<close>

theorem absent_callback_is_noop:
  "fst (input_event e s) = updatePromptTextInputSizer None s
   \<and> snd (input_event e s) = (case onInput (props s) of None \<Rightarrow> [] | Some f \<Rightarrow> [f e])
   \<and> onCopiedToClipboard h t ty =
       (case onCopiedToClipboard_prop (sh_props h) of
          None \<Rightarrow> []
        | Some g \<Rightarrow> [Called (g ty t (index (sh_props h)))])
   \<and> change_event c =
       (case onChange (sel_props c) of
          None \<Rightarrow> []
        | Some k \<Rightarrow> [k (select_value (selectElement c))])
   \<and> innerHTML (promptTextInputSizer (fst (input_event e s)))
       = wrapContext False (replaceNewlines (getTextInputValue s)) @ lit ''&nbsp''
   \<and> promptTextInput (fst (input_event e s)) = promptTextInput s"
  by (simp add: input_event_def onCopiedToClipboard_def change_event_def
      updatePromptTextInputSizer_def getTextInputValue_def Let_def split: option.splits)

subsection \<open>The copy event of the syntax highlighter\<close>



subsection \<open>The feedback form\<close>

text \<open>
  C2: after \<^verbatim>\<open>close()\<close>, whether it returned or threw for want of the wrapper, the stored
  payload is the default one of the constructor: \<^verbatim>\<open>selectedOption\<close> is the value of the
  first configured feedback option and \<^verbatim>\<open>comment\<close>, \<^verbatim>\<open>messageId\<close> and \<^verbatim>\<open>tabId\<close>
  are empty; the comment widget is cleared and the select widget, which has that option
  among its own, holds the first option's value.
\<close>

theorem close_resets_to_default:
  assumes "feedbackOptions cfg = opt # rest"
    and "opt_value opt \<in> set (optionValues (selectElement (feedbackOptionsWrapper s)))"
  shows "feedbackPayload (state_of (close cfg s)) =
           \<lparr>messageId = [], selectedOption = opt_value opt, tabId_of = [], comment = []\<rparr>
         \<and> initialFeedbackPayload cfg None = Inr (feedbackPayload (state_of (close cfg s)))
         \<and> textarea_value (commentElement (feedbackComment (state_of (close cfg s)))) = []
         \<and> getValue (feedbackOptionsWrapper (state_of (close cfg s))) = opt_value opt"
  using assms
  by (simp add: close_def initialFeedbackPayload_def comment_clear_def getValue_def setValue_def
      select_value_set_select_value textarea_value_set_textarea_value Let_def
      split: option.splits)

theorem close_resets_to_default_witness:
  "feedbackOptions exampleConfig =
     \<lparr>opt_value = lit ''helpful'', opt_label = lit ''Helpful''\<rparr>
       # [\<lparr>opt_value = lit ''other'', opt_label = lit ''Other''\<rparr>]
   \<and> lit ''helpful'' \<in> set (optionValues (selectElement (feedbackOptionsWrapper exampleForm)))
   \<and> feedbackPayload (state_of (close exampleConfig exampleForm)) =
       \<lparr>messageId = [], selectedOption = lit ''helpful'', tabId_of = [], comment = []\<rparr>
   \<and> initialFeedbackPayload exampleConfig None =
       Inr (feedbackPayload (state_of (close exampleConfig exampleForm)))
   \<and> textarea_value (commentElement (feedbackComment (state_of (close exampleConfig exampleForm))))
       = []
   \<and> getValue (feedbackOptionsWrapper (state_of (close exampleConfig exampleForm)))
       = lit ''helpful''"
proof -
  have opts: "feedbackOptions exampleConfig =
     \<lparr>opt_value = lit ''helpful'', opt_label = lit ''Helpful''\<rparr>
       # [\<lparr>opt_value = lit ''other'', opt_label = lit ''Other''\<rparr>]"
    by (simp add: exampleConfig_def)
  have sel: "opt_value \<lparr>opt_value = lit ''helpful'', opt_label = lit ''Helpful''\<rparr>
       \<in> set (optionValues (selectElement (feedbackOptionsWrapper exampleForm)))"
    by (simp add: exampleForm_def exampleSelect_def new_Select_def exampleConfig_def)
  show ?thesis
    using opts sel close_resets_to_default [OF opts sel] by simp
qed

text \<open>
  C8: the listener of \<^verbatim>\<open>SHOW_FEEDBACK_FORM\<close> sets the payload's \<^verbatim>\<open>messageId\<close> and
  \<^verbatim>\<open>tabId\<close> from the event data at once and sets one timer, of 5 milliseconds, for
  \<^verbatim>\<open>show\<close>. The wrapper exists by then, so the deferred \<^verbatim>\<open>show()\<close> returns, having added
  the class \<^verbatim>\<open>mynah-feedback-form-show\<close> to the wrapper and changed nothing else; in any
  state \<^verbatim>\<open>show()\<close> leaves the payload, the comment widget, the select widget and the form
  container as they were.
\<close>

theorem show_feedback_form_defers_class_toggle:
  "snd (show_feedback_form d s) = [(5, show)]
   \<and> messageId (feedbackPayload (fst (show_feedback_form d s))) = data_messageId d
   \<and> tabId_of (feedbackPayload (fst (show_feedback_form d s))) = data_tabId d
   \<and> (\<exists>w. feedbackFormWrapper (fst (show_feedback_form d s)) = Some w
          \<and> show (fst (show_feedback_form d s)) =
              Normal ((fst (show_feedback_form d s))
                 \<lparr>feedbackFormWrapper := Some (addClass ''mynah-feedback-form-show'' w)\<rparr>)
          \<and> ''mynah-feedback-form-show''
              \<in> set (classNames (addClass ''mynah-feedback-form-show'' w)))
   \<and> feedbackPayload (state_of (show t)) = feedbackPayload t
   \<and> feedbackComment (state_of (show t)) = feedbackComment t
   \<and> feedbackOptionsWrapper (state_of (show t)) = feedbackOptionsWrapper t
   \<and> feedbackFormContainer (state_of (show t)) = feedbackFormContainer t"
  by (auto simp add: show_feedback_form_def show_def addClass_def Let_def split: option.splits)

end
